theory Spec2Isabelle
  imports Complex_Main
begin

section \<open>TriSurface: a planar cutting surface and its view transformation\<close>

text \<open>
  The development embeds \<^verbatim>\<open>src/pyFlowStat/TriSurface.py\<close>. A one-dimensional numpy
  array is a list of numbers and a two-dimensional one a list of rows. Every exception
  the source or numpy raises is a value of type \<open>error\<close>.

  Numbers are exact reals. The source computes in 64-bit floating point, which rounds,
  overflows to infinity and produces NaN; the definitions below give the same values
  only where every intermediate result is exactly representable, as with the small
  integers of the examples. For that reason the statements proved here are of two
  kinds only: statements that do not depend on the values computed (which exception
  is raised for which shape, which members are assigned in which order), for all
  inputs; and statements about the values computed, at inputs of small integers.
\<close>

subsection \<open>Exceptions\<close>

text \<open>
  \<open>IOError\<close>: \<^verbatim>\<open>open\<close> on a path that cannot be read.
  \<open>ValueError\<close>: \<^verbatim>\<open>float\<close> on a malformed token, numpy on shapes that do not fit, the
  truth value of an array with more than one element.
  \<open>IndexError\<close>: numpy indexing out of range or with too many indices.
  \<open>LinAlgError\<close>: \<^verbatim>\<open>numpy.linalg.inv\<close> on a singular matrix.
\<close>

datatype error = IOError | ValueError | IndexError | LinAlgError

type_synonym vec = "real list"
type_synonym array2 = "real list list"

subsection \<open>The numpy operations the source calls\<close>

text \<open>\<^verbatim>\<open>np.zeros(n)\<close> and \<^verbatim>\<open>np.zeros((n,m))\<close>.\<close>

definition np_zeros :: "nat \<Rightarrow> vec" where
  "np_zeros n = replicate n 0"

definition np_zeros2 :: "nat \<Rightarrow> nat \<Rightarrow> array2" where
  "np_zeros2 n m = replicate n (np_zeros m)"

text \<open>
  A list of rows stands for a two-dimensional array when it is not empty and all rows
  have the same length. \<^verbatim>\<open>np.array\<close> of an empty or ragged list of rows is a
  one-dimensional array (of floats, or of list objects in the numpy the source was
  written for), and an index with two subscripts on it raises IndexError.
\<close>

definition is2d :: "array2 \<Rightarrow> bool" where
  "is2d a = (a \<noteq> [] \<and> list_all (\<lambda>r. length r = length (hd a)) a)"

text \<open>\<^verbatim>\<open>a[i,:]\<close> for a literal index \<open>i \<ge> 0\<close>.\<close>

definition row :: "array2 \<Rightarrow> nat \<Rightarrow> error + vec" where
  "row a i = (if is2d a \<and> i < length a then Inr (a ! i) else Inl IndexError)"

text \<open>
  Elementwise binary operations with numpy's broadcasting between one-dimensional
  operands: equal lengths combine pointwise, an operand of length one is repeated, any
  other pair of lengths raises ValueError. A zero-dimensional result (a scalar) is
  modelled as a list of length one; it broadcasts in the same way.
\<close>

definition broadcast2 :: "('a \<Rightarrow> 'b \<Rightarrow> 'c) \<Rightarrow> 'a list \<Rightarrow> 'b list \<Rightarrow> error + 'c list" where
  "broadcast2 f a b =
     (if length a = length b then Inr (map2 f a b)
      else if length b = 1 then Inr (map (\<lambda>x. f x (hd b)) a)
      else if length a = 1 then Inr (map (\<lambda>y. f (hd a) y) b)
      else Inl ValueError)"

text \<open>
  \<^verbatim>\<open>np.cross(a, b)\<close> on one-dimensional operands: the operands must have two or three
  components (ValueError otherwise); a missing third component counts as zero; two
  operands of two components give the scalar z component only. The products and
  differences are exact here; in 64-bit floating point they round, overflow to
  infinity (a difference of two infinities is then NaN) and underflow to zero.
\<close>

definition np_cross :: "vec \<Rightarrow> vec \<Rightarrow> error + vec" where
  "np_cross a b =
     (if (length a = 2 \<or> length a = 3) \<and> (length b = 2 \<or> length b = 3) then
        (let a0 = a ! 0; a1 = a ! 1; a2 = (if length a = 3 then a ! 2 else 0);
             b0 = b ! 0; b1 = b ! 1; b2 = (if length b = 3 then b ! 2 else 0)
         in if length a = 2 \<and> length b = 2 then Inr [a0 * b1 - a1 * b0]
            else Inr [a1 * b2 - a2 * b1, a2 * b0 - a0 * b2, a0 * b1 - a1 * b0])
      else Inl ValueError)"

text \<open>\<^verbatim>\<open>np.dot\<close> of two vectors, and of a matrix with a vector.\<close>

definition np_dot :: "vec \<Rightarrow> vec \<Rightarrow> error + real" where
  "np_dot a b =
     (if length a = length b then Inr (sum_list (map2 (*) a b)) else Inl ValueError)"

definition np_dot_mv :: "array2 \<Rightarrow> vec \<Rightarrow> error + vec" where
  "np_dot_mv m v =
     (if list_all (\<lambda>r. length r = length v) m
      then Inr (map (\<lambda>r. sum_list (map2 (*) r v)) m)
      else Inl ValueError)"

text \<open>
  The truth value numpy gives an array of booleans in an \<^verbatim>\<open>if\<close>: the element of an
  array of one element, False for an empty array, ValueError for more than one element.
\<close>

definition truth_value :: "bool list \<Rightarrow> error + bool" where
  "truth_value bs =
     (case bs of [] \<Rightarrow> Inr False | [b] \<Rightarrow> Inr b | _ # _ # _ \<Rightarrow> Inl ValueError)"

text \<open>
  \<^verbatim>\<open>a == b\<close> on arrays: elementwise with broadcasting; on shapes that do not broadcast
  the numpy of the source's time answers the single value False.
\<close>

definition np_eq :: "vec \<Rightarrow> vec \<Rightarrow> bool list" where
  "np_eq a b = (case broadcast2 (=) a b of Inl e \<Rightarrow> [False] | Inr bs \<Rightarrow> bs)"

subsection \<open>isColinear\<close>

definition isColinear :: "vec \<Rightarrow> vec \<Rightarrow> error + bool" where
  "isColinear vec1 vec2 =
     (case np_cross vec1 vec2 of
        Inl e \<Rightarrow> Inl e
      | Inr c \<Rightarrow>
          (case truth_value (np_eq c (np_zeros (length vec1))) of
             Inl e \<Rightarrow> Inl e
           | Inr t \<Rightarrow> if t then Inr True else Inr False))"

subsection \<open>Assignments into slices\<close>

text \<open>
  \<^verbatim>\<open>dst = dst + src\<close> stored back into a slice \<open>dst\<close> of a one-dimensional array: the
  source must have the slice's length, or length one (it is then repeated).
\<close>

definition add_into :: "vec \<Rightarrow> vec \<Rightarrow> error + vec" where
  "add_into dst src =
     (if length src = length dst then Inr (map2 (+) dst src)
      else if length src = 1 then Inr (map (\<lambda>x. x + hd src) dst)
      else Inl ValueError)"

text \<open>\<^verbatim>\<open>m[:,j] = v\<close>: column \<open>j\<close> of a two-dimensional array is overwritten.\<close>

definition set_col :: "array2 \<Rightarrow> nat \<Rightarrow> vec \<Rightarrow> error + array2" where
  "set_col m j v =
     (if length v = length m then Inr (map2 (\<lambda>r x. r[j := x]) m v)
      else if length v = 1 then Inr (map (\<lambda>r. r[j := hd v]) m)
      else Inl ValueError)"

text \<open>\<^verbatim>\<open>m[i,:] = v\<close>: row \<open>i\<close> of a two-dimensional array is overwritten.\<close>

definition set_row :: "array2 \<Rightarrow> nat \<Rightarrow> vec \<Rightarrow> error + array2" where
  "set_row m i v =
     (if length m \<le> i then Inl IndexError
      else if length v = length (m ! i) then Inr (m[i := v])
      else if length v = 1 then Inr (m[i := map (\<lambda>_. hd v) (m ! i)])
      else Inl ValueError)"

text \<open>The first error of a list of results, or all the values.\<close>

fun sequence :: "(error + 'a) list \<Rightarrow> error + 'a list" where
  "sequence [] = Inr []"
| "sequence (x # xs) =
     (case x of
        Inl e \<Rightarrow> Inl e
      | Inr v \<Rightarrow> (case sequence xs of Inl e \<Rightarrow> Inl e | Inr vs \<Rightarrow> Inr (v # vs)))"

subsection \<open>Matrix product and inverse\<close>

text \<open>
  \<^verbatim>\<open>np.dot\<close> of two matrices, and \<^verbatim>\<open>v.reshape((4,1))\<close>, which turns a vector of four
  components into a column and raises ValueError on any other size.
\<close>

definition np_dot_mm :: "array2 \<Rightarrow> array2 \<Rightarrow> error + array2" where
  "np_dot_mm a b =
     (if b \<noteq> [] \<and> list_all (\<lambda>r. length r = length b) a
      then Inr (map (\<lambda>r. map (\<lambda>j. sum_list (map2 (*) r (map (\<lambda>br. br ! j) b)))
                              [0..<length (hd b)]) a)
      else Inl ValueError)"

definition reshape_4_1 :: "vec \<Rightarrow> error + array2" where
  "reshape_4_1 v = (if length v = 4 then Inr (map (\<lambda>x. [x]) v) else Inl ValueError)"

text \<open>
  \<^verbatim>\<open>np.linalg.inv\<close> is numpy's, not the repository's. It is modelled by what it
  computes in exact arithmetic: the inverse of a square matrix, here as the adjugate
  divided by the determinant (Laplace expansion along the first row), and LinAlgError
  for a matrix that is not square or whose determinant is zero. numpy's routine
  factorises in 64-bit floating point: it rounds, raises only when a pivot is exactly
  zero, and returns a result also for a matrix that holds an infinity or NaN. The two
  agree where the factorisation is exact, as on the matrices of small integers in the
  examples below; beyond those, only the shape of the result is used (the inverse of
  a matrix of \<open>n\<close> rows and columns has \<open>n\<close> rows and columns).
\<close>

definition del :: "nat \<Rightarrow> 'a list \<Rightarrow> 'a list" where
  "del j xs = take j xs @ drop (Suc j) xs"

fun det :: "array2 \<Rightarrow> real" where
  "det [] = 1"
| "det (r # rs) =
     sum_list (map (\<lambda>j. (- 1) ^ j * (r ! j) * det (map (del j) rs)) [0..<length r])"

definition cofactor :: "array2 \<Rightarrow> nat \<Rightarrow> nat \<Rightarrow> real" where
  "cofactor m i j = (- 1) ^ (i + j) * det (map (del j) (del i m))"

definition adjugate :: "array2 \<Rightarrow> array2" where
  "adjugate m = map (\<lambda>i. map (\<lambda>j. cofactor m j i) [0..<length m]) [0..<length m]"

definition np_linalg_inv :: "array2 \<Rightarrow> error + array2" where
  "np_linalg_inv m =
     (if \<not> list_all (\<lambda>r. length r = length m) m then Inl LinAlgError
      else if det m = 0 then Inl LinAlgError
      else Inr (map (map (\<lambda>c. c / det m)) (adjugate m)))"

subsection \<open>affineVec and affineMat\<close>

definition affineVec :: "vec \<Rightarrow> vec" where
  "affineVec vec =
     (let affineVec = np_zeros (length vec + 1);
          affineVec = affineVec[length affineVec - 1 := 1]
      in map2 (+) (take (length vec) affineVec) vec @ drop (length vec) affineVec)"

text \<open>
  \<open>affineMat\<close>: the block \<^verbatim>\<open>[0:nbl,0:nbl]\<close> receives \<open>mat\<close>, the first \<open>nbr\<close> entries of
  the last column receive the translation, the last entry of the last row is set to 1.
  (The parameter \<^verbatim>\<open>trans\<close> of the source is \<open>trans1\<close> here.)
\<close>

definition affineMat :: "array2 \<Rightarrow> vec \<Rightarrow> error + array2" where
  "affineMat mat trans1 =
     (let nbl = length mat; nbr = length mat;
          affineMat = np_zeros2 (nbl + 1) (nbr + 1)
      in (case sequence (map2 (\<lambda>r m. add_into (take nbl r) m) (take nbl affineMat) mat) of
            Inl e \<Rightarrow> Inl e
          | Inr block \<Rightarrow>
             (let affineMat = map2 (\<lambda>b r. b @ drop nbl r) block (take nbl affineMat)
                                @ drop nbl affineMat
              in (case add_into (map last (take nbr affineMat)) trans1 of
                    Inl e \<Rightarrow> Inl e
                  | Inr col \<Rightarrow>
                     (let affineMat =
                            map2 (\<lambda>r c. r[length r - 1 := c]) (take nbr affineMat) col
                              @ drop nbr affineMat;
                          affineMat = affineMat[length affineMat - 1 :=
                             (last affineMat)[length (last affineMat) - 1 := 1]]
                      in Inr affineMat)))))"

subsection \<open>genPlaneData and genTransData\<close>

text \<open>
  Neither function tests its input: \<open>genPlaneData\<close> fails only where an index or a
  shape does not fit, and \<open>genTransData\<close> only there or where the inversion raises.
  The differences, the cross product and the dot product of \<open>genPlaneData\<close> are exact
  here and rounded in the source.
\<close>

definition genPlaneData :: "array2 \<Rightarrow> error + vec" where
  "genPlaneData points =
     (case row points 1 of Inl e \<Rightarrow> Inl e | Inr p1 \<Rightarrow>
     (case row points 0 of Inl e \<Rightarrow> Inl e | Inr p0 \<Rightarrow>
     (let v1 = map2 (-) p1 p0 in
     (case row points 2 of Inl e \<Rightarrow> Inl e | Inr p2 \<Rightarrow>
     (let v2 = map2 (-) p2 p0 in
     (case np_cross v1 v2 of Inl e \<Rightarrow> Inl e | Inr plNorm \<Rightarrow>
     (let plDef = np_zeros 4 in
     (case add_into (take 3 plDef) plNorm of Inl e \<Rightarrow> Inl e | Inr s \<Rightarrow>
     (let plDef = s @ drop 3 plDef;
          afpt = affineVec p0 in
     (case np_dot plDef afpt of Inl e \<Rightarrow> Inl e | Inr c \<Rightarrow>
      Inr (plDef[3 := - c])))))))))))"

text \<open>The parameter \<open>points\<close> of \<open>genTransData\<close> is not used by the source.\<close>

definition genTransData ::
  "array2 \<Rightarrow> vec \<Rightarrow> vec \<Rightarrow> vec \<Rightarrow> error + (array2 \<times> array2 \<times> array2)" where
  "genTransData points viewAnchor xViewBasis yViewBasis =
     (let viewBasis = np_zeros2 3 3 in
     (case np_cross xViewBasis yViewBasis of Inl e \<Rightarrow> Inl e | Inr zViewBasis \<Rightarrow>
     (case set_col viewBasis 0 xViewBasis of Inl e \<Rightarrow> Inl e | Inr viewBasis \<Rightarrow>
     (case set_col viewBasis 1 yViewBasis of Inl e \<Rightarrow> Inl e | Inr viewBasis \<Rightarrow>
     (case set_col viewBasis 2 zViewBasis of Inl e \<Rightarrow> Inl e | Inr viewBasis \<Rightarrow>
     (case broadcast2 (-) viewAnchor (np_zeros 3) of Inl e \<Rightarrow> Inl e | Inr translation \<Rightarrow>
     (case affineMat viewBasis translation of Inl e \<Rightarrow> Inl e | Inr invT \<Rightarrow>
     (case np_linalg_inv invT of Inl e \<Rightarrow> Inl e | Inr T \<Rightarrow>
      Inr (T, invT, viewBasis)))))))))"

subsection \<open>parseFoamFile\<close>

text \<open>
  The regular expression of the source, \<^verbatim>\<open>[-+]?\d*\.?\d+e*[-+]?\d*\<close>, matched at the
  start of a string as Python's backtracking matcher does: an optional sign; then
  digits, a dot and at least one digit, or else (no dot followed by a digit) at least
  one digit; then, each as long as possible, letters e, an optional sign and digits.
  \<open>match_number\<close> is the length of the match, None when there is none. Characters are
  bytes; the digits are the ASCII digits.
\<close>

definition is_digit :: "char \<Rightarrow> bool" where
  "is_digit c = (c \<in> set ''0123456789'')"

definition is_sign :: "char \<Rightarrow> bool" where
  "is_sign c = (c = CHR ''-'' \<or> c = CHR ''+'')"

definition sign_len :: "string \<Rightarrow> nat" where
  "sign_len s = (case s of [] \<Rightarrow> 0 | c # _ \<Rightarrow> if is_sign c then 1 else 0)"

definition match_number :: "string \<Rightarrow> nat option" where
  "match_number s =
     (let sg = sign_len s;
          r = drop sg s;
          k = length (takeWhile is_digit r);
          r1 = drop k r;
          m = (case r1 of [] \<Rightarrow> 0
               | c # r2 \<Rightarrow> if c = CHR ''.'' then length (takeWhile is_digit r2) else 0);
          core = (if 0 < m then k + 1 + m else k)
      in if core = 0 then None
         else
          (let r3 = drop core r;
               ne = length (takeWhile (\<lambda>c. c = CHR ''e'') r3);
               r4 = drop ne r3;
               s2 = sign_len r4;
               d2 = length (takeWhile is_digit (drop s2 r4))
           in Some (sg + core + ne + s2 + d2)))"

text \<open>
  \<^verbatim>\<open>re.findall\<close>: the matches from left to right, without overlap; where the expression
  does not match, the scan moves on by one character. A match is never empty.
\<close>

function re_findall :: "string \<Rightarrow> string list" where
  "re_findall [] = []"
| "re_findall (c # cs) =
     (case match_number (c # cs) of
        None \<Rightarrow> re_findall cs
      | Some n \<Rightarrow> take n (c # cs) # re_findall (drop (n - 1) cs))"
  by pat_completeness auto
termination
  by (relation "measure length") auto

text \<open>
  \<^verbatim>\<open>float(nb)\<close> on a token: an optional sign, digits with an optional dot (at least one
  digit before or after it), an optional exponent (e or E, an optional sign, at least
  one digit), and nothing else; ValueError otherwise. The tokens \<open>re_findall\<close> yields
  hold signs, digits, dots and the letter e only, so the other spellings \<^verbatim>\<open>float\<close>
  accepts (blanks, underscores, inf, nan) do not occur. The value is the exact decimal.
\<close>

definition digits_val :: "string \<Rightarrow> nat" where
  "digits_val ds = foldl (\<lambda>a c. 10 * a + (of_char c - 48)) 0 ds"

definition py_float :: "string \<Rightarrow> error + real" where
  "py_float s =
     (let neg = (case s of [] \<Rightarrow> False | c # _ \<Rightarrow> c = CHR ''-'');
          r = drop (sign_len s) s;
          ip = takeWhile is_digit r;
          r1 = dropWhile is_digit r;
          dot = (case r1 of [] \<Rightarrow> False | c # _ \<Rightarrow> c = CHR ''.'');
          r2 = (if dot then tl r1 else r1);
          fp = (if dot then takeWhile is_digit r2 else []);
          r3 = (if dot then dropWhile is_digit r2 else r2);
          mant = real (digits_val (ip @ fp)) / 10 ^ length fp
      in if ip = [] \<and> fp = [] then Inl ValueError
         else
          (case r3 of
             [] \<Rightarrow> Inr (if neg then - mant else mant)
           | c # r4 \<Rightarrow>
               if c = CHR ''e'' \<or> c = CHR ''E'' then
                 (let eneg = (case r4 of [] \<Rightarrow> False | d # _ \<Rightarrow> d = CHR ''-'');
                      ed = drop (sign_len r4) r4
                  in if ed \<noteq> [] \<and> list_all is_digit ed then
                       (let v = (if eneg then mant / 10 ^ digits_val ed
                                 else mant * 10 ^ digits_val ed)
                        in Inr (if neg then - v else v))
                     else Inl ValueError)
               else Inl ValueError))"

text \<open>\<^verbatim>\<open>line.startswith('//')\<close>.\<close>

definition startswith :: "string \<Rightarrow> string \<Rightarrow> bool" where
  "startswith line p = (take (length p) line = p)"

text \<open>
  The loop over the lines, with the two variables it updates. The test for a comment
  line has the body \<^verbatim>\<open>pass\<close> and is followed by a separate \<^verbatim>\<open>if\<close>: both of its
  branches leave the state as it is and go on to the tests on the number of matches.
\<close>

fun parse_lines :: "bool \<Rightarrow> array2 \<Rightarrow> string list \<Rightarrow> error + array2" where
  "parse_lines catchFirstNb output [] = Inr output"
| "parse_lines catchFirstNb output (line # istream) =
     (let match = re_findall line;
          (catchFirstNb, output) =
             (if startswith line ''//'' then (catchFirstNb, output)
              else (catchFirstNb, output))
      in if \<not> catchFirstNb \<and> length match = 1 then parse_lines True output istream
         else if catchFirstNb \<and> 0 < length match then
           (case sequence (map py_float match) of
              Inl e \<Rightarrow> Inl e
            | Inr matchfloat \<Rightarrow> parse_lines catchFirstNb (output @ [matchfloat]) istream)
         else parse_lines catchFirstNb output istream)"

text \<open>
  The file system is a map from paths to the lines of the file (each with its line end,
  as the iteration over the stream yields them); \<^verbatim>\<open>open\<close> on a path outside the map
  raises IOError. \<^verbatim>\<open>np.array(output)\<close> is the list of rows itself (see \<open>is2d\<close>).
\<close>

definition parseFoamFile :: "(string \<Rightarrow> string list option) \<Rightarrow> string \<Rightarrow> error + array2" where
  "parseFoamFile fs foamFile =
     (case fs foamFile of
        None \<Rightarrow> Inl IOError
      | Some istream \<Rightarrow> parse_lines False [] istream)"

subsection \<open>The class TriSurface\<close>

text \<open>
  The members of the object, with None for Python's \<^verbatim>\<open>None\<close>. The methods below take
  the object and return it as they leave it, with the exception they raise (if any)
  and the lines they print: an exception does not undo the assignments made before it.
  Parameters that share a name with a member carry a prime.
\<close>

record TriSurface =
  storeMesh :: bool
  varsFile :: string
  pointsFile :: string
  facesFile :: string
  vars :: "array2 option"
  varRank :: nat
  points :: "array2 option"
  xys :: "array2 option"
  faces :: "array2 option"
  plDef :: "vec option"
  viewAnchor :: "vec option"
  viewBasis :: "array2 option"
  affMat :: "array2 option"
  invAffMat :: "array2 option"

record outcome =
  raised :: "error option"
  printed :: "string list"
  surface :: TriSurface

text \<open>\<^verbatim>\<open>__init__\<close>.\<close>

definition init :: "bool \<Rightarrow> TriSurface" where
  "init storeMesh' =
     \<lparr>storeMesh = storeMesh', varsFile = [], pointsFile = [], facesFile = [],
      vars = None, varRank = 0, points = None, xys = None, faces = None,
      plDef = None, viewAnchor = None, viewBasis = None, affMat = None,
      invAffMat = None\<rparr>"

text \<open>
  The loop that fills \<open>xys\<close>, over the indices \<^verbatim>\<open>range(self.xys.shape[0])\<close>. The array
  is updated in place, so a step that raises leaves the rows written so far. The first
  product of the body is overwritten by the second, but is evaluated.
\<close>

fun xys_loop :: "array2 \<Rightarrow> array2 \<Rightarrow> nat list \<Rightarrow> array2 \<Rightarrow> error option \<times> array2" where
  "xys_loop affMat' points' [] xys' = (None, xys')"
| "xys_loop affMat' points' (i # is) xys' =
     (let ptInA = points' ! i in
     (case reshape_4_1 (affineVec ptInA) of Inl e \<Rightarrow> (Some e, xys') | Inr col \<Rightarrow>
     (case np_dot_mm affMat' col of Inl e \<Rightarrow> (Some e, xys') | Inr ptInB \<Rightarrow>
     (let ptInB = take 3 ptInB in
     (case np_dot_mv affMat' (affineVec ptInA) of Inl e \<Rightarrow> (Some e, xys') | Inr ptInB \<Rightarrow>
     (let ptInB = take 3 ptInB in
     (case set_row xys' i (take 2 ptInB) of Inl e \<Rightarrow> (Some e, xys') | Inr xys' \<Rightarrow>
      xys_loop affMat' points' is xys')))))))"

text \<open>
  The common tail of the two constructors once the points are known: the plane, the
  anchor, the transformation and, when the mesh is stored, the view coordinates. In
  the source this text stands twice in each constructor (once per branch of the test
  on \<open>storeMesh\<close>); \<open>project\<close> tells whether \<open>xys\<close> is computed.
\<close>

definition derive ::
  "bool \<Rightarrow> string list \<Rightarrow> TriSurface \<Rightarrow> array2 \<Rightarrow> vec \<Rightarrow> vec \<Rightarrow> vec \<Rightarrow> outcome" where
  "derive project out self pts viewAnchor' xViewBasis yViewBasis =
     (case genPlaneData pts of
        Inl e \<Rightarrow> \<lparr>raised = Some e, printed = out, surface = self\<rparr>
      | Inr pl \<Rightarrow>
     (let self = self\<lparr>plDef := Some pl\<rparr>;
          self = self\<lparr>viewAnchor := Some viewAnchor'\<rparr> in
     (case genTransData pts viewAnchor' xViewBasis yViewBasis of
        Inl e \<Rightarrow> \<lparr>raised = Some e, printed = out, surface = self\<rparr>
      | Inr (T, invT, vb) \<Rightarrow>
     (let self = self\<lparr>affMat := Some T, invAffMat := Some invT, viewBasis := Some vb\<rparr> in
      if project then
        (let self = self\<lparr>xys := Some (np_zeros2 (length pts) 2)\<rparr> in
        (case xys_loop T pts [0..<length pts] (np_zeros2 (length pts) 2) of
           (err, xys') \<Rightarrow> \<lparr>raised = err, printed = out, surface = self\<lparr>xys := Some xys'\<rparr>\<rparr>))
      else \<lparr>raised = None, printed = out, surface = self\<rparr>))))"

text \<open>
  \<open>constructFromArray\<close>. The test on the lengths prints a line and evaluates the name
  \<^verbatim>\<open>exit\<close> without calling it; the statements after it run in either case.
\<close>

definition constructFromArray ::
  "TriSurface \<Rightarrow> array2 \<Rightarrow> array2 \<Rightarrow> array2 \<Rightarrow> vec \<Rightarrow> vec \<Rightarrow> vec \<Rightarrow> outcome" where
  "constructFromArray self varsArray pointsArray facesArray viewAnchor' xViewBasis yViewBasis =
     (let out = (if length varsArray \<noteq> length pointsArray
                 then [''varsArray and pointsArray must have the same dimension. Exit'']
                 else []);
          self = self\<lparr>varsFile := [], pointsFile := [], facesFile := []\<rparr>;
          self = self\<lparr>vars := Some varsArray\<rparr> in
     (case row varsArray 1 of
        Inl e \<Rightarrow> \<lparr>raised = Some e, printed = out, surface = self\<rparr>
      | Inr r \<Rightarrow>
     (let self = self\<lparr>varRank := length r\<rparr> in
      if storeMesh self then
        (let self = self\<lparr>points := Some pointsArray\<rparr>;
             self = self\<lparr>faces := Some facesArray\<rparr>
         in derive True out self pointsArray viewAnchor' xViewBasis yViewBasis)
      else derive False out self pointsArray viewAnchor' xViewBasis yViewBasis)))"

text \<open>\<^verbatim>\<open>a[:,1:4]\<close>: columns 1 to 3 of a two-dimensional array.\<close>

definition cols_1_4 :: "array2 \<Rightarrow> error + array2" where
  "cols_1_4 a = (if is2d a then Inr (map (\<lambda>r. take 3 (drop 1 r)) a) else Inl IndexError)"

definition readFromFoamFile ::
  "(string \<Rightarrow> string list option) \<Rightarrow> TriSurface \<Rightarrow> string \<Rightarrow> string \<Rightarrow> string
     \<Rightarrow> vec \<Rightarrow> vec \<Rightarrow> vec \<Rightarrow> outcome" where
  "readFromFoamFile fs self varsFile' pointsFile' facesFile' viewAnchor' xViewBasis yViewBasis =
     (let self = self\<lparr>varsFile := varsFile', pointsFile := pointsFile',
                       facesFile := facesFile'\<rparr> in
     (case parseFoamFile fs varsFile' of
        Inl e \<Rightarrow> \<lparr>raised = Some e, printed = [], surface = self\<rparr>
      | Inr v \<Rightarrow>
     (let self = self\<lparr>vars := Some v\<rparr> in
     (case row v 1 of
        Inl e \<Rightarrow> \<lparr>raised = Some e, printed = [], surface = self\<rparr>
      | Inr r \<Rightarrow>
     (let self = self\<lparr>varRank := length r\<rparr> in
      if storeMesh self then
        (case parseFoamFile fs pointsFile' of
           Inl e \<Rightarrow> \<lparr>raised = Some e, printed = [], surface = self\<rparr>
         | Inr pts \<Rightarrow>
        (let self = self\<lparr>points := Some pts\<rparr> in
        (case parseFoamFile fs facesFile' of
           Inl e \<Rightarrow> \<lparr>raised = Some e, printed = [], surface = self\<rparr>
         | Inr f \<Rightarrow>
        (case cols_1_4 f of
           Inl e \<Rightarrow> \<lparr>raised = Some e, printed = [], surface = self\<rparr>
         | Inr f3 \<Rightarrow>
        (let self = self\<lparr>faces := Some f3\<rparr>
         in derive True [] self pts viewAnchor' xViewBasis yViewBasis)))))
      else
        (case parseFoamFile fs pointsFile' of
           Inl e \<Rightarrow> \<lparr>raised = Some e, printed = [], surface = self\<rparr>
         | Inr pts \<Rightarrow> derive False [] self pts viewAnchor' xViewBasis yViewBasis))))))"

text \<open>\<open>readFromVTK\<close>: the body of the source is \<^verbatim>\<open>pass\<close>.\<close>

definition readFromVTK :: "TriSurface \<Rightarrow> string \<Rightarrow> vec \<Rightarrow> vec \<Rightarrow> vec \<Rightarrow> outcome" where
  "readFromVTK self vtkFile viewAnchor' xViewBasis yViewBasis =
     \<lparr>raised = None, printed = [], surface = self\<rparr>"

subsection \<open>Auxiliary notions for the statements\<close>

text \<open>
  The two ways a constructor ends (it prints nothing when the arrays have equal
  lengths), and the object after each group of assignments of a constructor, in the
  order of the source: the file names and \<open>vars\<close>; then \<open>varRank\<close> and, when the mesh
  is stored, \<open>points\<close> and \<open>faces\<close>; then \<open>plDef\<close> and \<open>viewAnchor\<close>; then the two
  matrices, the basis and, when the mesh is stored, \<open>xys\<close>.
\<close>

definition raises :: "error \<Rightarrow> TriSurface \<Rightarrow> outcome" where
  "raises e s = \<lparr>raised = Some e, printed = [], surface = s\<rparr>"

definition returns :: "TriSurface \<Rightarrow> outcome" where
  "returns s = \<lparr>raised = None, printed = [], surface = s\<rparr>"

definition stage_vars :: "TriSurface \<Rightarrow> string \<Rightarrow> string \<Rightarrow> string \<Rightarrow> array2 \<Rightarrow> TriSurface" where
  "stage_vars s vf pf ff v =
     s\<lparr>varsFile := vf, pointsFile := pf, facesFile := ff, vars := Some v\<rparr>"

definition stage_mesh :: "TriSurface \<Rightarrow> vec \<Rightarrow> array2 \<Rightarrow> array2 \<Rightarrow> TriSurface" where
  "stage_mesh s r pts fcs =
     (if storeMesh s
      then s\<lparr>varRank := length r, points := Some pts, faces := Some fcs\<rparr>
      else s\<lparr>varRank := length r\<rparr>)"

definition stage_plane :: "TriSurface \<Rightarrow> vec \<Rightarrow> vec \<Rightarrow> TriSurface" where
  "stage_plane s pl an = s\<lparr>plDef := Some pl, viewAnchor := Some an\<rparr>"

definition stage_trans ::
  "TriSurface \<Rightarrow> array2 \<Rightarrow> array2 \<Rightarrow> array2 \<Rightarrow> array2 \<Rightarrow> TriSurface" where
  "stage_trans s T invT vb xs =
     (if storeMesh s
      then s\<lparr>affMat := Some T, invAffMat := Some invT, viewBasis := Some vb,
             xys := Some xs\<rparr>
      else s\<lparr>affMat := Some T, invAffMat := Some invT, viewBasis := Some vb\<rparr>)"

text \<open>
  Example files in the format of the OpenFOAM sampling tool, each line with its line
  end: a vector field \<open>U\<close> of three samples, a scalar field \<open>p\<close> of a single sample,
  three points and one face. No other path can be opened.
\<close>

definition ln :: "string \<Rightarrow> string" where
  "ln s = s @ [CHR 0x0A]"

definition example_files :: "string \<Rightarrow> string list option" where
  "example_files =
     map_of
      [(''U'', [ln ''3'', ln ''('', ln ''(1 2 3)'', ln ''(4 5 6)'', ln ''(7 8 9)'', ln '')'']),
       (''p'', [ln ''1'', ln ''('', ln ''5'', ln '')'']),
       (''points'', [ln ''3'', ln ''('', ln ''(0 0 0)'', ln ''(1 0 0)'', ln ''(0 1 0)'',
                     ln '')'']),
       (''faces'', [ln ''1'', ln ''('', ln ''3(0 1 2)'', ln '')''])]"

section \<open>Properties\<close>

subsection \<open>Auxiliary lemmas\<close>

lemma len3: "length xs = 3 \<longleftrightarrow> (\<exists>a b c. xs = [a, b, c])"
  by (auto simp: numeral_3_eq_3 length_Suc_conv)

lemma affineVec_eq: "affineVec v = v @ [1]"
  apply (simp add: affineVec_def np_zeros_def Let_def)
  apply (induction v)
   apply (auto simp: replicate_append_same)
  done

lemma is2d_nth: "is2d a \<Longrightarrow> i < length a \<Longrightarrow> length (a ! i) = length (hd a)"
  by (simp add: is2d_def list_all_length)

lemma genPlaneData_shape:
  assumes "genPlaneData pts = Inr pl"
  shows "is2d pts \<and> 3 \<le> length pts \<and> length (hd pts) = 3"
proof -
  from assms have 2: "is2d pts" and l: "2 < length pts"
    by (auto simp: genPlaneData_def row_def split: if_splits sum.splits)
  let ?w = "length (hd pts)"
  have w: "length (pts ! 0) = ?w" "length (pts ! 1) = ?w" "length (pts ! 2) = ?w"
    using l by (auto intro!: is2d_nth[OF 2])
  have "?w = 3"
    using assms 2 l w
    by (auto simp: genPlaneData_def row_def Let_def affineVec_eq np_cross_def add_into_def
        np_dot_def np_zeros_def eval_nat_numeral split: if_splits sum.splits)
  with 2 l show ?thesis by simp
qed


lemma sequence_length: "sequence xs = Inr ys \<Longrightarrow> length ys = length xs"
  by (induction xs arbitrary: ys) (auto split: sum.splits)

lemma add_into_length: "add_into dst src = Inr r \<Longrightarrow> length r = length dst"
  by (auto simp: add_into_def split: if_splits)

lemma set_col_length: "set_col m j v = Inr m' \<Longrightarrow> length m' = length m"
  by (auto simp: set_col_def split: if_splits)

lemma affineMat_length: "affineMat mat tr = Inr A \<Longrightarrow> length A = length mat + 1"
  by (auto simp: affineMat_def Let_def np_zeros2_def dest!: sequence_length add_into_length
      split: sum.splits)

lemma np_linalg_inv_shape:
  "np_linalg_inv m = Inr T \<Longrightarrow> length T = length m \<and> list_all (\<lambda>r. length r = length m) T"
  by (auto simp: np_linalg_inv_def adjugate_def list_all_iff split: if_splits)

lemma genTransData_shape:
  assumes "genTransData pts an x y = Inr (T, invT, vb)"
  shows "length T = 4 \<and> list_all (\<lambda>r. length r = 4) T"
proof -
  from assms obtain vb3 tr where a: "affineMat vb3 tr = Inr invT" and l: "length vb3 = 3"
    and i: "np_linalg_inv invT = Inr T"
    by (auto simp: genTransData_def Let_def np_zeros2_def split: sum.splits
        dest!: set_col_length)
  from affineMat_length[OF a] l have "length invT = 4" by simp
  with np_linalg_inv_shape[OF i] show ?thesis by simp
qed

lemma xys_loop_ok:
  assumes "length T = 4" and "list_all (\<lambda>r. length r = 4) T"
    and "list_all (\<lambda>r. length r = 3) pts"
    and "list_all (\<lambda>i. i < length pts) is"
    and "length xys0 = length pts" and "list_all (\<lambda>r. length r = 2) xys0"
  shows "fst (xys_loop T pts is xys0) = None"
  using assms(4-6)
proof (induction "is" arbitrary: xys0)
  case Nil
  then show ?case by simp
next
  case (Cons i "is")
  have i: "i < length pts" using Cons.prems(1) by simp
  then have p: "length (pts ! i) = 3" using assms(3) by (simp add: list_all_length)
  have r: "length (xys0 ! i) = 2" using Cons.prems(2,3) i by (simp add: list_all_length)
  let ?v = "take 2 (take 3 (map (\<lambda>r. sum_list (map2 (*) r (affineVec (pts ! i)))) T))"
  have v: "length ?v = 2" using assms(1) by simp
  have s: "set_row xys0 i ?v = Inr (xys0[i := ?v])"
    using i r v Cons.prems(2) by (simp add: set_row_def del: take_take)
  have l2: "list_all (\<lambda>r. length r = 2) (xys0[i := ?v])"
    using Cons.prems(3) v by (auto simp: list_all_iff dest!: subsetD[OF set_update_subset_insert])
  have "fst (xys_loop T pts is (xys0[i := ?v])) = None"
    using Cons.IH[of "xys0[i := ?v]"] Cons.prems l2 by simp
  then show ?case
    using p s assms(1,2)
    by (simp add: reshape_4_1_def np_dot_mm_def np_dot_mv_def affineVec_eq Let_def
        del: take_take)
qed

lemma derive_keeps:
  "vars (surface (derive b out s pts an x y)) = vars s"
  "varRank (surface (derive b out s pts an x y)) = varRank s"
  "points (surface (derive b out s pts an x y)) = points s"
  "faces (surface (derive b out s pts an x y)) = faces s"
  by (simp_all add: derive_def Let_def split: sum.splits prod.splits)

lemma derive_loop_ok:
  assumes pl: "genPlaneData pts = Inr pl" and tr: "genTransData pts an x y = Inr (T, invT, vb)"
  shows "fst (xys_loop T pts [0..<length pts] (np_zeros2 (length pts) 2)) = None"
proof -
  have "is2d pts \<and> 3 \<le> length pts \<and> length (hd pts) = 3"
    using genPlaneData_shape[OF pl] .
  then have p3: "list_all (\<lambda>r. length r = 3) pts" by (auto simp: is2d_def list_all_iff)
  have T4: "length T = 4 \<and> list_all (\<lambda>r. length r = 4) T"
    using genTransData_shape[OF tr] .
  show ?thesis
    by (rule xys_loop_ok)
       (use T4 p3 in \<open>simp_all add: np_zeros2_def np_zeros_def list_all_iff\<close>)
qed

lemma init_sel:
  "storeMesh (init b) = b" "xys (init b) = None"
  by (simp_all add: init_def)

lemma derive_scenario:
  "derive True out s [[0, 0, 0], [1, 0, 0], [0, 1, 0]] [0, 0, 0] [1, 0, 0] [0, 1, 0] =
     \<lparr>raised = None, printed = out,
      surface = s\<lparr>plDef := Some [0, 0, 1, 0], viewAnchor := Some [0, 0, 0],
        affMat := Some [[1, 0, 0, 0], [0, 1, 0, 0], [0, 0, 1, 0], [0, 0, 0, 1]],
        invAffMat := Some [[1, 0, 0, 0], [0, 1, 0, 0], [0, 0, 1, 0], [0, 0, 0, 1]],
        viewBasis := Some [[1, 0, 0], [0, 1, 0], [0, 0, 1]],
        xys := Some [[0, 0], [1, 0], [0, 1]]\<rparr>\<rparr>"
proof -
  have pl: "genPlaneData [[0, 0, 0], [1, 0, 0], [0, 1, 0]] = Inr [0, 0, 1, 0]"
    by code_simp
  have tr: "genTransData [[0, 0, 0], [1, 0, 0], [0, 1, 0]] [0, 0, 0] [1, 0, 0] [0, 1, 0] =
      Inr ([[1, 0, 0, 0], [0, 1, 0, 0], [0, 0, 1, 0], [0, 0, 0, 1]],
           [[1, 0, 0, 0], [0, 1, 0, 0], [0, 0, 1, 0], [0, 0, 0, 1]],
           [[1, 0, 0], [0, 1, 0], [0, 0, 1]])"
    by code_simp
  have lp: "xys_loop [[1, 0, 0, 0], [0, 1, 0, 0], [0, 0, 1, 0], [0, 0, 0, 1]]
      [[0, 0, 0], [1, 0, 0], [0, 1, 0]] [0..<length [[0, 0, 0], [1, 0, 0], [0, 1, 0::real]]]
      (np_zeros2 (length [[0, 0, 0], [1, 0, 0], [0, 1, 0::real]]) 2) =
      (None, [[0, 0], [1, 0], [0, 1]])"
    by code_simp
  show ?thesis
    by (simp only: derive_def Let_def pl tr lp sum.case prod.case if_True)
       simp
qed

subsection \<open>Claims\<close>

text \<open>
  C1. A call of \<open>constructFromArray\<close> with arrays of different lengths should fail and
  not complete the construction. The source prints its message and goes on: with two
  field samples and three points the call raises nothing and every member is set. The
  statement below evaluates the code at that input.
\<close>

theorem constructFromArray_mismatch_completes:
  "raised (constructFromArray (init True) [[1], [2]] [[0, 0, 0], [1, 0, 0], [0, 1, 0]]
      [[0, 1, 2]] [0, 0, 0] [1, 0, 0] [0, 1, 0]) = None
   \<and> printed (constructFromArray (init True) [[1], [2]] [[0, 0, 0], [1, 0, 0], [0, 1, 0]]
      [[0, 1, 2]] [0, 0, 0] [1, 0, 0] [0, 1, 0])
       = [''varsArray and pointsArray must have the same dimension. Exit'']
   \<and> xys (surface (constructFromArray (init True) [[1], [2]]
      [[0, 0, 0], [1, 0, 0], [0, 1, 0]] [[0, 1, 2]] [0, 0, 0] [1, 0, 0] [0, 1, 0]))
       = Some [[0, 0], [1, 0], [0, 1]]"
  by code_simp

text \<open>
  C2, as the specification states it: plane fitting on points whose first three are
  collinear raises. It does not: on the specification's own example the source returns
  the equation with zero normal.
\<close>

theorem genPlaneData_collinear_counterexample:
  "genPlaneData [[0, 0, 0], [1, 0, 0], [2, 0, 0]] = Inr [0, 0, 0, 0]"
  by code_simp

text \<open>
  C2, amended. \<open>genPlaneData\<close> has no test for a degenerate plane: for every array
  of at least three points of three components, whether its first three points are
  collinear or not, it raises nothing and returns an equation of four components (for
  the collinear points above, the one with the zero normal).
\<close>

theorem genPlaneData_never_raises:
  assumes "3 \<le> length pts" and "list_all (\<lambda>p. length p = 3) pts"
  shows "\<exists>pl. genPlaneData pts = Inr pl \<and> length pl = 4"
proof -
  obtain p0 p1 p2 rest where pts: "pts = p0 # p1 # p2 # rest"
    using assms(1) by (auto simp: numeral_3_eq_3 Suc_le_length_iff)
  obtain a b c where p0: "p0 = [a, b, c]" using assms(2) by (auto simp: pts len3)
  obtain d e f where p1: "p1 = [d, e, f]" using assms(2) by (auto simp: pts len3)
  obtain g h i where p2: "p2 = [g, h, i]" using assms(2) by (auto simp: pts len3)
  show ?thesis
    using assms(2)
    by (simp add: pts p0 p1 p2 genPlaneData_def row_def is2d_def np_cross_def np_zeros_def
        add_into_def affineVec_eq np_dot_def Let_def eval_nat_numeral)
qed

theorem genPlaneData_never_raises_witness:
  "genPlaneData [[1, 1, 1], [2, 3, 4], [- 1, - 3, - 5], [4, 5, 6]] = Inr [0, 0, 0, 0]
   \<and> (\<exists>pl. genPlaneData [[1, 1, 1], [2, 3, 4], [- 1, - 3, - 5], [4, 5, 6]] = Inr pl
          \<and> length pl = 4)"
proof -
  have v: "genPlaneData [[1, 1, 1], [2, 3, 4], [- 1, - 3, - 5], [4, 5, 6]] = Inr [0, 0, 0, 0]"
    by code_simp
  have "\<exists>pl. genPlaneData [[1, 1, 1], [2, 3, 4], [- 1, - 3, - 5], [4, 5, 6]] = Inr pl
      \<and> length pl = 4"
    by (rule genPlaneData_never_raises) simp_all
  with v show ?thesis by blast
qed

text \<open>
  C4. A line that starts with \<^verbatim>\<open>//\<close> should be skipped by \<open>parseFoamFile\<close>. The source
  tests for the marker and then treats the line like any other: after the count line
  a comment with numbers becomes a data row, and before it a comment with exactly one
  number is taken for the count line, so that the real count line becomes a row. The
  statement below evaluates the code on two such files.
\<close>

theorem parseFoamFile_comment_parsed:
  "parseFoamFile
      (map_of [(''U'', [''2'' @ [CHR 0x0A], ''// 7 8 9'' @ [CHR 0x0A],
                        ''(1 2 3)'' @ [CHR 0x0A], ''(4 5 6)'' @ [CHR 0x0A]])]) ''U''
     = Inr [[7, 8, 9], [1, 2, 3], [4, 5, 6]]
   \<and> parseFoamFile
      (map_of [(''U'', [''// 1 sample'' @ [CHR 0x0A], ''2'' @ [CHR 0x0A],
                        ''(1 2 3)'' @ [CHR 0x0A], ''(4 5 6)'' @ [CHR 0x0A]])]) ''U''
     = Inr [[2], [1, 2, 3], [4, 5, 6]]"
  by code_simp

text \<open>
  C5, as the specification states it: every call of \<open>readFromVTK\<close> fails with an
  explicit error. It does not: the call below raises nothing and returns the object
  it was given.
\<close>

theorem readFromVTK_counterexample:
  "raised (readFromVTK (init True) ''surface.vtk'' [0, 0, 0] [1, 0, 0] [0, 1, 0]) = None
   \<and> surface (readFromVTK (init True) ''surface.vtk'' [0, 0, 0] [1, 0, 0] [0, 1, 0])
       = init True"
  by (simp add: readFromVTK_def)

text \<open>
  C5, amended. Every call of \<open>readFromVTK\<close> returns normally: it raises nothing,
  prints nothing and leaves the object as it was.
\<close>

theorem readFromVTK_does_nothing:
  "raised (readFromVTK self vtkFile anchor xDir yDir) = None
   \<and> printed (readFromVTK self vtkFile anchor xDir yDir) = []
   \<and> surface (readFromVTK self vtkFile anchor xDir yDir) = self"
  by (simp add: readFromVTK_def)

text \<open>
  C6. With the points \<open>(0,0,0), (1,0,0), (0,1,0)\<close>, the anchor \<open>(0,0,0)\<close> and the
  directions \<open>(1,0,0)\<close> and \<open>(0,1,0)\<close>, construction from arrays with the mesh stored
  gives the plane \<open>(0, 0, 1, 0)\<close> and the view coordinates \<open>(0,0), (1,0), (0,1)\<close>, in
  this order, for every array of field values of at least two rows and every array of
  faces.
\<close>

theorem constructFromArray_scenario:
  assumes "is2d varsArray" and "2 \<le> length varsArray"
  shows "raised (constructFromArray (init True) varsArray [[0, 0, 0], [1, 0, 0], [0, 1, 0]]
            facesArray [0, 0, 0] [1, 0, 0] [0, 1, 0]) = None
       \<and> plDef (surface (constructFromArray (init True) varsArray
            [[0, 0, 0], [1, 0, 0], [0, 1, 0]] facesArray [0, 0, 0] [1, 0, 0] [0, 1, 0]))
           = Some [0, 0, 1, 0]
       \<and> xys (surface (constructFromArray (init True) varsArray
            [[0, 0, 0], [1, 0, 0], [0, 1, 0]] facesArray [0, 0, 0] [1, 0, 0] [0, 1, 0]))
           = Some [[0, 0], [1, 0], [0, 1]]"
proof -
  have r: "row varsArray (Suc 0) = Inr (varsArray ! Suc 0)"
    using assms by (simp add: row_def)
  show ?thesis
    unfolding constructFromArray_def Let_def
    by (simp add: r init_sel derive_scenario)
qed

theorem constructFromArray_scenario_witness:
  "raised (constructFromArray (init True) [[1], [2], [3]] [[0, 0, 0], [1, 0, 0], [0, 1, 0]]
      [[0, 1, 2]] [0, 0, 0] [1, 0, 0] [0, 1, 0]) = None
   \<and> plDef (surface (constructFromArray (init True) [[1], [2], [3]]
      [[0, 0, 0], [1, 0, 0], [0, 1, 0]] [[0, 1, 2]] [0, 0, 0] [1, 0, 0] [0, 1, 0]))
       = Some [0, 0, 1, 0]
   \<and> xys (surface (constructFromArray (init True) [[1], [2], [3]]
      [[0, 0, 0], [1, 0, 0], [0, 1, 0]] [[0, 1, 2]] [0, 0, 0] [1, 0, 0] [0, 1, 0]))
       = Some [[0, 0], [1, 0], [0, 1]]"
proof -
  have "is2d [[1], [2], [3 :: real]]" and "2 \<le> length [[1], [2], [3 :: real]]"
    by (simp_all add: is2d_def)
  then show ?thesis
    by (rule constructFromArray_scenario)
qed

text \<open>
  C8, as the specification states it: a construction call that raises leaves no partly
  built state. It does: with collinear view directions \<open>constructFromArray\<close> (on arrays
  of equal length) raises \<open>LinAlgError\<close> after it has stored \<open>points\<close> and \<open>plDef\<close> and
  before it stores \<open>affMat\<close> and \<open>xys\<close>.
\<close>

theorem construction_partial_counterexample:
  "raised (constructFromArray (init True) [[1], [2], [3]] [[0, 0, 0], [1, 0, 0], [0, 1, 0]]
      [[0, 1, 2]] [0, 0, 0] [1, 0, 0] [2, 0, 0]) = Some LinAlgError
   \<and> points (surface (constructFromArray (init True) [[1], [2], [3]]
      [[0, 0, 0], [1, 0, 0], [0, 1, 0]] [[0, 1, 2]] [0, 0, 0] [1, 0, 0] [2, 0, 0]))
       = Some [[0, 0, 0], [1, 0, 0], [0, 1, 0]]
   \<and> plDef (surface (constructFromArray (init True) [[1], [2], [3]]
      [[0, 0, 0], [1, 0, 0], [0, 1, 0]] [[0, 1, 2]] [0, 0, 0] [1, 0, 0] [2, 0, 0]))
       = Some [0, 0, 1, 0]
   \<and> affMat (surface (constructFromArray (init True) [[1], [2], [3]]
      [[0, 0, 0], [1, 0, 0], [0, 1, 0]] [[0, 1, 2]] [0, 0, 0] [1, 0, 0] [2, 0, 0])) = None
   \<and> xys (surface (constructFromArray (init True) [[1], [2], [3]]
      [[0, 0, 0], [1, 0, 0], [0, 1, 0]] [[0, 1, 2]] [0, 0, 0] [1, 0, 0] [2, 0, 0])) = None"
  by code_simp

text \<open>
  C8, amended. A construction call assigns the members in the order of the source and
  an exception keeps every assignment made before it, so that a call that raises
  leaves exactly the members of the groups completed before the failing statement
  newly set, and all others as they were. For \<open>constructFromArray\<close> on arrays of equal
  length: when reading the rank raises, the file names and \<open>vars\<close> are set; when plane
  fitting raises, also \<open>varRank\<close> and (mesh stored) \<open>points\<close> and \<open>faces\<close>; when building
  the transformation raises, also \<open>plDef\<close> and \<open>viewAnchor\<close>; when all three succeed the
  call returns normally with \<open>affMat\<close>, \<open>invAffMat\<close>, \<open>viewBasis\<close> and (mesh stored)
  \<open>xys\<close> set as well, the loop over the points never raising. For \<open>readFromFoamFile\<close> the
  same holds, with the further failing statements of reading the three files: before
  \<open>vars\<close> (only the file names are set), before \<open>points\<close>, and between \<open>points\<close> and
  \<open>faces\<close>.
\<close>

theorem construction_stages:
  "(length va = length pa \<and> row va 1 = Inl e \<longrightarrow>
      constructFromArray self va pa fa an x y = raises e (stage_vars self [] [] [] va))
   \<and> (length va = length pa \<and> row va 1 = Inr r \<and> genPlaneData pa = Inl e \<longrightarrow>
      constructFromArray self va pa fa an x y
        = raises e (stage_mesh (stage_vars self [] [] [] va) r pa fa))
   \<and> (length va = length pa \<and> row va 1 = Inr r \<and> genPlaneData pa = Inr pl
        \<and> genTransData pa an x y = Inl e \<longrightarrow>
      constructFromArray self va pa fa an x y
        = raises e (stage_plane (stage_mesh (stage_vars self [] [] [] va) r pa fa) pl an))
   \<and> (length va = length pa \<and> row va 1 = Inr r \<and> genPlaneData pa = Inr pl
        \<and> genTransData pa an x y = Inr (T, invT, vb) \<longrightarrow>
      (\<exists>xs. xys_loop T pa [0..<length pa] (np_zeros2 (length pa) 2) = (None, xs)
         \<and> constructFromArray self va pa fa an x y
             = returns (stage_trans
                 (stage_plane (stage_mesh (stage_vars self [] [] [] va) r pa fa) pl an)
                 T invT vb xs)))
   \<and> (parseFoamFile fs vf = Inl e \<longrightarrow>
      readFromFoamFile fs self vf pf ff an x y
        = raises e (self\<lparr>varsFile := vf, pointsFile := pf, facesFile := ff\<rparr>))
   \<and> (parseFoamFile fs vf = Inr v \<and> row v 1 = Inl e \<longrightarrow>
      readFromFoamFile fs self vf pf ff an x y = raises e (stage_vars self vf pf ff v))
   \<and> (parseFoamFile fs vf = Inr v \<and> row v 1 = Inr r \<and> parseFoamFile fs pf = Inl e \<longrightarrow>
      readFromFoamFile fs self vf pf ff an x y
        = raises e ((stage_vars self vf pf ff v)\<lparr>varRank := length r\<rparr>))
   \<and> (storeMesh self \<and> parseFoamFile fs vf = Inr v \<and> row v 1 = Inr r
        \<and> parseFoamFile fs pf = Inr pts \<and> parseFoamFile fs ff = Inl e \<longrightarrow>
      readFromFoamFile fs self vf pf ff an x y
        = raises e ((stage_vars self vf pf ff v)\<lparr>varRank := length r, points := Some pts\<rparr>))
   \<and> (storeMesh self \<and> parseFoamFile fs vf = Inr v \<and> row v 1 = Inr r
        \<and> parseFoamFile fs pf = Inr pts \<and> parseFoamFile fs ff = Inr f
        \<and> cols_1_4 f = Inl e \<longrightarrow>
      readFromFoamFile fs self vf pf ff an x y
        = raises e ((stage_vars self vf pf ff v)\<lparr>varRank := length r, points := Some pts\<rparr>))
   \<and> (parseFoamFile fs vf = Inr v \<and> row v 1 = Inr r \<and> parseFoamFile fs pf = Inr pts
        \<and> (if storeMesh self then parseFoamFile fs ff = Inr f \<and> cols_1_4 f = Inr f3 else True)
        \<and> genPlaneData pts = Inl e \<longrightarrow>
      readFromFoamFile fs self vf pf ff an x y
        = raises e (stage_mesh (stage_vars self vf pf ff v) r pts f3))
   \<and> (parseFoamFile fs vf = Inr v \<and> row v 1 = Inr r \<and> parseFoamFile fs pf = Inr pts
        \<and> (if storeMesh self then parseFoamFile fs ff = Inr f \<and> cols_1_4 f = Inr f3 else True)
        \<and> genPlaneData pts = Inr pl \<and> genTransData pts an x y = Inl e \<longrightarrow>
      readFromFoamFile fs self vf pf ff an x y
        = raises e (stage_plane (stage_mesh (stage_vars self vf pf ff v) r pts f3) pl an))
   \<and> (parseFoamFile fs vf = Inr v \<and> row v 1 = Inr r \<and> parseFoamFile fs pf = Inr pts
        \<and> (if storeMesh self then parseFoamFile fs ff = Inr f \<and> cols_1_4 f = Inr f3 else True)
        \<and> genPlaneData pts = Inr pl \<and> genTransData pts an x y = Inr (T, invT, vb) \<longrightarrow>
      (\<exists>xs. xys_loop T pts [0..<length pts] (np_zeros2 (length pts) 2) = (None, xs)
         \<and> readFromFoamFile fs self vf pf ff an x y
             = returns (stage_trans
                 (stage_plane (stage_mesh (stage_vars self vf pf ff v) r pts f3) pl an)
                 T invT vb xs)))"
proof (intro conjI impI; (elim conjE)?)
  note defs = raises_def returns_def stage_vars_def stage_mesh_def stage_plane_def
    stage_trans_def constructFromArray_def readFromFoamFile_def derive_def Let_def
  show "constructFromArray self va pa fa an x y = raises e (stage_vars self [] [] [] va)"
    if "length va = length pa" "row va 1 = Inl e"
    using that by (simp add: defs)
  show "constructFromArray self va pa fa an x y
        = raises e (stage_mesh (stage_vars self [] [] [] va) r pa fa)"
    if "length va = length pa" "row va 1 = Inr r" "genPlaneData pa = Inl e"
    using that by (simp add: defs)
  show "constructFromArray self va pa fa an x y
        = raises e (stage_plane (stage_mesh (stage_vars self [] [] [] va) r pa fa) pl an)"
    if "length va = length pa" "row va 1 = Inr r" "genPlaneData pa = Inr pl"
      "genTransData pa an x y = Inl e"
    using that by (simp add: defs)
  show "\<exists>xs. xys_loop T pa [0..<length pa] (np_zeros2 (length pa) 2) = (None, xs)
         \<and> constructFromArray self va pa fa an x y
             = returns (stage_trans
                 (stage_plane (stage_mesh (stage_vars self [] [] [] va) r pa fa) pl an)
                 T invT vb xs)"
    if h: "length va = length pa" "row va 1 = Inr r" "genPlaneData pa = Inr pl"
      "genTransData pa an x y = Inr (T, invT, vb)"
  proof -
    obtain xs where l: "xys_loop T pa [0..<length pa] (np_zeros2 (length pa) 2) = (None, xs)"
      using derive_loop_ok[OF h(3,4)]
      by (cases "xys_loop T pa [0..<length pa] (np_zeros2 (length pa) 2)") auto
    show ?thesis
      using h by (intro exI[of _ xs]) (simp add: l defs)
  qed
  show "readFromFoamFile fs self vf pf ff an x y
        = raises e (self\<lparr>varsFile := vf, pointsFile := pf, facesFile := ff\<rparr>)"
    if "parseFoamFile fs vf = Inl e"
    using that by (simp add: defs)
  show "readFromFoamFile fs self vf pf ff an x y = raises e (stage_vars self vf pf ff v)"
    if "parseFoamFile fs vf = Inr v" "row v 1 = Inl e"
    using that by (simp add: defs)
  show "readFromFoamFile fs self vf pf ff an x y
        = raises e ((stage_vars self vf pf ff v)\<lparr>varRank := length r\<rparr>)"
    if "parseFoamFile fs vf = Inr v" "row v 1 = Inr r" "parseFoamFile fs pf = Inl e"
    using that by (simp add: defs)
  show "readFromFoamFile fs self vf pf ff an x y
        = raises e ((stage_vars self vf pf ff v)\<lparr>varRank := length r, points := Some pts\<rparr>)"
    if "storeMesh self" "parseFoamFile fs vf = Inr v" "row v 1 = Inr r"
      "parseFoamFile fs pf = Inr pts" "parseFoamFile fs ff = Inl e"
    using that by (simp add: defs)
  show "readFromFoamFile fs self vf pf ff an x y
        = raises e ((stage_vars self vf pf ff v)\<lparr>varRank := length r, points := Some pts\<rparr>)"
    if "storeMesh self" "parseFoamFile fs vf = Inr v" "row v 1 = Inr r"
      "parseFoamFile fs pf = Inr pts" "parseFoamFile fs ff = Inr f" "cols_1_4 f = Inl e"
    using that by (simp add: defs)
  show "readFromFoamFile fs self vf pf ff an x y
        = raises e (stage_mesh (stage_vars self vf pf ff v) r pts f3)"
    if "parseFoamFile fs vf = Inr v" "row v 1 = Inr r" "parseFoamFile fs pf = Inr pts"
      "if storeMesh self then parseFoamFile fs ff = Inr f \<and> cols_1_4 f = Inr f3 else True"
      "genPlaneData pts = Inl e"
    using that by (cases "storeMesh self") (simp_all add: defs)
  show "readFromFoamFile fs self vf pf ff an x y
        = raises e (stage_plane (stage_mesh (stage_vars self vf pf ff v) r pts f3) pl an)"
    if "parseFoamFile fs vf = Inr v" "row v 1 = Inr r" "parseFoamFile fs pf = Inr pts"
      "if storeMesh self then parseFoamFile fs ff = Inr f \<and> cols_1_4 f = Inr f3 else True"
      "genPlaneData pts = Inr pl" "genTransData pts an x y = Inl e"
    using that by (cases "storeMesh self") (simp_all add: defs)
  show "\<exists>xs. xys_loop T pts [0..<length pts] (np_zeros2 (length pts) 2) = (None, xs)
         \<and> readFromFoamFile fs self vf pf ff an x y
             = returns (stage_trans
                 (stage_plane (stage_mesh (stage_vars self vf pf ff v) r pts f3) pl an)
                 T invT vb xs)"
    if h: "parseFoamFile fs vf = Inr v" "row v 1 = Inr r" "parseFoamFile fs pf = Inr pts"
      "if storeMesh self then parseFoamFile fs ff = Inr f \<and> cols_1_4 f = Inr f3 else True"
      "genPlaneData pts = Inr pl" "genTransData pts an x y = Inr (T, invT, vb)"
  proof -
    obtain xs where l: "xys_loop T pts [0..<length pts] (np_zeros2 (length pts) 2) = (None, xs)"
      using derive_loop_ok[OF h(5,6)]
      by (cases "xys_loop T pts [0..<length pts] (np_zeros2 (length pts) 2)") auto
    show ?thesis
      using h by (intro exI[of _ xs]) (cases "storeMesh self"; simp add: l defs)
  qed
qed

theorem construction_stages_witness:
  "constructFromArray (init True) [[1], [2], [3]] [[0, 0, 0], [1, 0, 0], [0, 1, 0]]
      [[0, 1, 2]] [0, 0, 0] [1, 0, 0] [2, 0, 0]
     = raises LinAlgError
        (stage_plane
          (stage_mesh (stage_vars (init True) [] [] [] [[1], [2], [3]]) [2]
            [[0, 0, 0], [1, 0, 0], [0, 1, 0]] [[0, 1, 2]])
          [0, 0, 1, 0] [0, 0, 0])
   \<and> readFromFoamFile example_files (init True) ''U'' ''points'' ''none''
        [0, 0, 0] [1, 0, 0] [0, 1, 0]
     = raises IOError
        ((stage_vars (init True) ''U'' ''points'' ''none'' [[1, 2, 3], [4, 5, 6], [7, 8, 9]])
          \<lparr>varRank := 3, points := Some [[0, 0, 0], [1, 0, 0], [0, 1, 0]]\<rparr>)
   \<and> readFromFoamFile example_files (init True) ''U'' ''points'' ''faces''
        [0, 0, 0] [1, 0, 0] [0, 1, 0]
     = returns
        (stage_trans
          (stage_plane
            (stage_mesh
              (stage_vars (init True) ''U'' ''points'' ''faces''
                [[1, 2, 3], [4, 5, 6], [7, 8, 9]])
              [4, 5, 6] [[0, 0, 0], [1, 0, 0], [0, 1, 0]] [[0, 1, 2]])
            [0, 0, 1, 0] [0, 0, 0])
          [[1, 0, 0, 0], [0, 1, 0, 0], [0, 0, 1, 0], [0, 0, 0, 1]]
          [[1, 0, 0, 0], [0, 1, 0, 0], [0, 0, 1, 0], [0, 0, 0, 1]]
          [[1, 0, 0], [0, 1, 0], [0, 0, 1]]
          [[0, 0], [1, 0], [0, 1]])"
proof -
  have sm: "storeMesh (init True)" by (simp add: init_sel)
  have r1: "row [[1], [2], [3]] 1 = Inr [2]" by code_simp
  have pl: "genPlaneData [[0, 0, 0], [1, 0, 0], [0, 1, 0]] = Inr [0, 0, 1, 0]" by code_simp
  have t1: "genTransData [[0, 0, 0], [1, 0, 0], [0, 1, 0]] [0, 0, 0] [1, 0, 0] [2, 0, 0]
      = Inl LinAlgError"
    by code_simp
  have t2: "genTransData [[0, 0, 0], [1, 0, 0], [0, 1, 0]] [0, 0, 0] [1, 0, 0] [0, 1, 0]
      = Inr ([[1, 0, 0, 0], [0, 1, 0, 0], [0, 0, 1, 0], [0, 0, 0, 1]],
             [[1, 0, 0, 0], [0, 1, 0, 0], [0, 0, 1, 0], [0, 0, 0, 1]],
             [[1, 0, 0], [0, 1, 0], [0, 0, 1]])"
    by code_simp
  have pU: "parseFoamFile example_files ''U'' = Inr [[1, 2, 3], [4, 5, 6], [7, 8, 9]]"
    by code_simp
  have rU: "row [[1, 2, 3], [4, 5, 6], [7, 8, 9]] 1 = Inr [4, 5, 6]" by code_simp
  have pP: "parseFoamFile example_files ''points'' = Inr [[0, 0, 0], [1, 0, 0], [0, 1, 0]]"
    by code_simp
  have pN: "parseFoamFile example_files ''none'' = Inl IOError" by code_simp
  have pF: "parseFoamFile example_files ''faces'' = Inr [[3, 0, 1, 2]]" by code_simp
  have cF: "cols_1_4 [[3, 0, 1, 2]] = Inr [[0, 1, 2]]" by code_simp
  have lp: "xys_loop [[1, 0, 0, 0], [0, 1, 0, 0], [0, 0, 1, 0], [0, 0, 0, 1]]
      [[0, 0, 0], [1, 0, 0], [0, 1, 0]] [0..<length [[0, 0, 0], [1, 0, 0], [0, 1, 0::real]]]
      (np_zeros2 (length [[0, 0, 0], [1, 0, 0], [0, 1, 0::real]]) 2) =
      (None, [[0, 0], [1, 0], [0, 1]])"
    by code_simp
  note st = construction_stages [where self = "init True" and an = "[0, 0, 0]"
      and x = "[1, 0, 0]" and fs = example_files and vf = "''U''" and pf = "''points''"
      and v = "[[1, 2, 3], [4, 5, 6], [7, 8, 9]]" and pts = "[[0, 0, 0], [1, 0, 0], [0, 1, 0]]"
      and pl = "[0, 0, 1, 0]" and va = "[[1], [2], [3]]"
      and pa = "[[0, 0, 0], [1, 0, 0], [0, 1, 0]]" and fa = "[[0, 1, 2]]"]
  have w1: "constructFromArray (init True) [[1], [2], [3]] [[0, 0, 0], [1, 0, 0], [0, 1, 0]]
      [[0, 1, 2]] [0, 0, 0] [1, 0, 0] [2, 0, 0]
     = raises LinAlgError
        (stage_plane
          (stage_mesh (stage_vars (init True) [] [] [] [[1], [2], [3]]) [2]
            [[0, 0, 0], [1, 0, 0], [0, 1, 0]] [[0, 1, 2]])
          [0, 0, 1, 0] [0, 0, 0])"
    using st [where y = "[2, 0, 0]" and r = "[2]" and e = LinAlgError, THEN conjunct2,
        THEN conjunct2, THEN conjunct1] r1 pl t1
    by simp
  have w2: "readFromFoamFile example_files (init True) ''U'' ''points'' ''none''
        [0, 0, 0] [1, 0, 0] [0, 1, 0]
     = raises IOError
        ((stage_vars (init True) ''U'' ''points'' ''none'' [[1, 2, 3], [4, 5, 6], [7, 8, 9]])
          \<lparr>varRank := 3, points := Some [[0, 0, 0], [1, 0, 0], [0, 1, 0]]\<rparr>)"
    using st [where y = "[0, 1, 0]" and r = "[4, 5, 6]" and e = IOError and ff = "''none''",
        THEN conjunct2, THEN conjunct2, THEN conjunct2, THEN conjunct2, THEN conjunct2,
        THEN conjunct2, THEN conjunct2, THEN conjunct1] sm pU rU pP pN
    by (simp add: numeral_3_eq_3)
  have "\<exists>xs. xys_loop [[1, 0, 0, 0], [0, 1, 0, 0], [0, 0, 1, 0], [0, 0, 0, 1]]
          [[0, 0, 0], [1, 0, 0], [0, 1, 0]] [0..<length [[0, 0, 0], [1, 0, 0], [0, 1, 0::real]]]
          (np_zeros2 (length [[0, 0, 0], [1, 0, 0], [0, 1, 0::real]]) 2) = (None, xs)
      \<and> readFromFoamFile example_files (init True) ''U'' ''points'' ''faces''
          [0, 0, 0] [1, 0, 0] [0, 1, 0]
        = returns
          (stage_trans
            (stage_plane
              (stage_mesh
                (stage_vars (init True) ''U'' ''points'' ''faces''
                  [[1, 2, 3], [4, 5, 6], [7, 8, 9]])
                [4, 5, 6] [[0, 0, 0], [1, 0, 0], [0, 1, 0]] [[0, 1, 2]])
              [0, 0, 1, 0] [0, 0, 0])
            [[1, 0, 0, 0], [0, 1, 0, 0], [0, 0, 1, 0], [0, 0, 0, 1]]
            [[1, 0, 0, 0], [0, 1, 0, 0], [0, 0, 1, 0], [0, 0, 0, 1]]
            [[1, 0, 0], [0, 1, 0], [0, 0, 1]] xs)"
    using st [where y = "[0, 1, 0]" and r = "[4, 5, 6]" and ff = "''faces''"
        and f = "[[3, 0, 1, 2]]" and ?f3.0 = "[[0, 1, 2]]"
        and T = "[[1, 0, 0, 0], [0, 1, 0, 0], [0, 0, 1, 0], [0, 0, 0, 1]]"
        and invT = "[[1, 0, 0, 0], [0, 1, 0, 0], [0, 0, 1, 0], [0, 0, 0, 1]]"
        and vb = "[[1, 0, 0], [0, 1, 0], [0, 0, 1]]",
        THEN conjunct2, THEN conjunct2, THEN conjunct2, THEN conjunct2, THEN conjunct2,
        THEN conjunct2, THEN conjunct2, THEN conjunct2, THEN conjunct2, THEN conjunct2,
        THEN conjunct2] sm pU rU pP pF cF pl t2
    by (simp only: if_True simp_thms)
  then have w3: "readFromFoamFile example_files (init True) ''U'' ''points'' ''faces''
        [0, 0, 0] [1, 0, 0] [0, 1, 0]
     = returns
        (stage_trans
          (stage_plane
            (stage_mesh
              (stage_vars (init True) ''U'' ''points'' ''faces''
                [[1, 2, 3], [4, 5, 6], [7, 8, 9]])
              [4, 5, 6] [[0, 0, 0], [1, 0, 0], [0, 1, 0]] [[0, 1, 2]])
            [0, 0, 1, 0] [0, 0, 0])
          [[1, 0, 0, 0], [0, 1, 0, 0], [0, 0, 1, 0], [0, 0, 0, 1]]
          [[1, 0, 0, 0], [0, 1, 0, 0], [0, 0, 1, 0], [0, 0, 0, 1]]
          [[1, 0, 0], [0, 1, 0], [0, 0, 1]]
          [[0, 0], [1, 0], [0, 1]])"
    unfolding lp by auto
  from w1 w2 w3 show ?thesis by (intro conjI)
qed

text \<open>
  C9. Both constructors read the rank of the field from row 1 of the array of field
  values, right after storing that array: on a two-dimensional array of at least two
  rows \<open>varRank\<close> is set to the length of row 1, whether or not a later statement
  raises, and so it is after every call that returns normally. On an array of fewer
  than two rows, also for a single field sample, the call raises IndexError and
  \<open>varRank\<close> is left as it was. For \<open>readFromFoamFile\<close> the array is the table parsed
  from the file of field values.
\<close>

theorem varRank_from_row_1:
  "(length va < 2 \<longrightarrow>
      raised (constructFromArray self va pa fa an x y) = Some IndexError
      \<and> varRank (surface (constructFromArray self va pa fa an x y)) = varRank self)
   \<and> (is2d va \<and> 2 \<le> length va \<longrightarrow>
        varRank (surface (constructFromArray self va pa fa an x y)) = length (va ! 1))
   \<and> (raised (constructFromArray self va pa fa an x y) = None \<longrightarrow>
        varRank (surface (constructFromArray self va pa fa an x y)) = length (va ! 1))
   \<and> (parseFoamFile fs vf = Inr tbl \<and> length tbl < 2 \<longrightarrow>
        raised (readFromFoamFile fs self vf pf ff an x y) = Some IndexError
        \<and> varRank (surface (readFromFoamFile fs self vf pf ff an x y)) = varRank self)
   \<and> (parseFoamFile fs vf = Inr tbl \<and> is2d tbl \<and> 2 \<le> length tbl \<longrightarrow>
        varRank (surface (readFromFoamFile fs self vf pf ff an x y)) = length (tbl ! 1))
   \<and> (parseFoamFile fs vf = Inr tbl
        \<and> raised (readFromFoamFile fs self vf pf ff an x y) = None \<longrightarrow>
        varRank (surface (readFromFoamFile fs self vf pf ff an x y)) = length (tbl ! 1))"
proof (intro conjI impI; (elim conjE)?)
  show "raised (constructFromArray self va pa fa an x y) = Some IndexError"
    if "length va < 2"
    using that by (simp add: constructFromArray_def row_def Let_def)
  show "varRank (surface (constructFromArray self va pa fa an x y)) = varRank self"
    if "length va < 2"
    using that by (simp add: constructFromArray_def row_def Let_def)
  show "varRank (surface (constructFromArray self va pa fa an x y)) = length (va ! 1)"
    if "is2d va" "2 \<le> length va"
    using that by (simp add: constructFromArray_def row_def Let_def derive_keeps)
  show "varRank (surface (constructFromArray self va pa fa an x y)) = length (va ! 1)"
    if a: "raised (constructFromArray self va pa fa an x y) = None"
  proof (cases "row va 1")
    case (Inl e)
    with a show ?thesis by (simp add: constructFromArray_def Let_def)
  next
    case (Inr r)
    then have "r = va ! 1" by (simp add: row_def split: if_splits)
    with Inr show ?thesis by (simp add: constructFromArray_def Let_def derive_keeps)
  qed
  show "raised (readFromFoamFile fs self vf pf ff an x y) = Some IndexError"
    if "parseFoamFile fs vf = Inr tbl" "length tbl < 2"
    using that by (simp add: readFromFoamFile_def row_def Let_def)
  show "varRank (surface (readFromFoamFile fs self vf pf ff an x y)) = varRank self"
    if "parseFoamFile fs vf = Inr tbl" "length tbl < 2"
    using that by (simp add: readFromFoamFile_def row_def Let_def)
  show "varRank (surface (readFromFoamFile fs self vf pf ff an x y)) = length (tbl ! 1)"
    if "parseFoamFile fs vf = Inr tbl" "is2d tbl" "2 \<le> length tbl"
    using that
    by (simp add: readFromFoamFile_def row_def Let_def derive_keeps split: sum.split)
  show "varRank (surface (readFromFoamFile fs self vf pf ff an x y)) = length (tbl ! 1)"
    if p: "parseFoamFile fs vf = Inr tbl"
      and n: "raised (readFromFoamFile fs self vf pf ff an x y) = None"
  proof (cases "row tbl 1")
    case (Inl e)
    with n p show ?thesis by (simp add: readFromFoamFile_def Let_def)
  next
    case (Inr r)
    then have "r = tbl ! 1" by (simp add: row_def split: if_splits)
    with Inr p show ?thesis
      by (simp add: readFromFoamFile_def Let_def derive_keeps split: sum.split)
  qed
qed

theorem varRank_from_row_1_witness:
  "raised (constructFromArray (init True) [[5]] [[0, 0, 0]] [[0, 0, 0]]
      [0, 0, 0] [1, 0, 0] [0, 1, 0]) = Some IndexError
   \<and> varRank (surface (constructFromArray (init True) [[1, 2], [3, 4], [5, 6]]
      [[0, 0, 0], [1, 0, 0], [0, 1, 0]] [[0, 1, 2]] [0, 0, 0] [1, 0, 0] [0, 1, 0])) = 2
   \<and> raised (readFromFoamFile example_files (init True) ''p'' ''points'' ''faces''
      [0, 0, 0] [1, 0, 0] [0, 1, 0]) = Some IndexError
   \<and> varRank (surface (readFromFoamFile example_files (init True) ''p'' ''points'' ''faces''
      [0, 0, 0] [1, 0, 0] [0, 1, 0])) = 0
   \<and> varRank (surface (readFromFoamFile example_files (init True) ''U'' ''points'' ''faces''
      [0, 0, 0] [1, 0, 0] [0, 1, 0])) = 3"
proof -
  have a: "is2d [[1, 2], [3, 4], [5, 6 :: real]]" "2 \<le> length [[1, 2], [3, 4], [5, 6 :: real]]"
    by (simp_all add: is2d_def)
  have p: "parseFoamFile example_files ''p'' = Inr [[5]]"
    by code_simp
  have u: "parseFoamFile example_files ''U'' = Inr [[1, 2, 3], [4, 5, 6], [7, 8, 9]]"
    by code_simp
  have b: "is2d [[1, 2, 3], [4, 5, 6], [7, 8, 9 :: real]]"
    "2 \<le> length [[1, 2, 3], [4, 5, 6], [7, 8, 9 :: real]]"
    by (simp_all add: is2d_def)
  have i: "varRank (init True) = 0" by (simp add: init_def)
  show ?thesis
    using a p u b i
      varRank_from_row_1 [where self = "init True" and va = "[[5]]" and pa = "[[0, 0, 0]]"
        and fa = "[[0, 0, 0]]" and an = "[0, 0, 0]" and x = "[1, 0, 0]" and y = "[0, 1, 0]"
        and fs = example_files and vf = "''p''" and tbl = "[[5]]"
        and pf = "''points''" and ff = "''faces''"]
      varRank_from_row_1 [where self = "init True" and va = "[[1, 2], [3, 4], [5, 6]]"
        and pa = "[[0, 0, 0], [1, 0, 0], [0, 1, 0]]" and fa = "[[0, 1, 2]]"
        and an = "[0, 0, 0]" and x = "[1, 0, 0]" and y = "[0, 1, 0]"
        and fs = example_files and vf = "''U''" and tbl = "[[1, 2, 3], [4, 5, 6], [7, 8, 9]]"
        and pf = "''points''" and ff = "''faces''"]
    by simp
qed

text \<open>
  C10. For every pair of vectors of three components, \<open>isColinear\<close> raises: the
  comparison of the cross product with the zero vector is an array of three booleans,
  which has no truth value. It returns neither True nor False.
\<close>

theorem isColinear_3d_raises:
  assumes "length vec1 = 3" and "length vec2 = 3"
  shows "isColinear vec1 vec2 = Inl ValueError"
  using assms
  by (simp add: isColinear_def np_cross_def np_eq_def broadcast2_def np_zeros_def
      truth_value_def Let_def eval_nat_numeral)

theorem isColinear_3d_raises_witness:
  "isColinear [1, 0, 0] [2, 0, 0] = Inl ValueError
   \<and> isColinear [1, 0, 0] [0, 1, 0] = Inl ValueError"
  using isColinear_3d_raises [of "[1, 0, 0]" "[2, 0, 0]"]
    isColinear_3d_raises [of "[1, 0, 0]" "[0, 1, 0]"]
  by simp

end
